theory Spec2Isabelle
  imports Complex_Main "HOL-Library.AList"
begin

section \<open>Performance-gate artifact analysis (CI/Scripts/analyze-performance.py)\<close>

text \<open>
  A shallow embedding of the CI artifact analyser: the log extractor \<open>parse_log_file\<close>,
  the readers \<open>parse_csv_report\<close> and \<open>parse_json_report\<close>, the aggregator
  \<open>analyze_artifacts_directory\<close>, the two renderers and \<open>main\<close>.

  Conventions of the embedding.
  \<^item> A Python \<open>str\<close> is a \<open>string\<close> whose characters are the code points
    U+0000 to U+00FF; the character classes of \<open>re\<close> and the grammar of \<open>float\<close>
    below are Python 3's on that range. Text with code points beyond U+00FF is outside
    the embedding.
  \<^item> Text that leaves the program (written files, console lines) is given as its bytes
    in UTF-8, the encoding of the two status glyphs in the source.
  \<^item> A dictionary is an association list with distinct keys in insertion order;
    assignment \<open>d[k] = v\<close> is \<open>AList.update k v d\<close> (an existing key keeps its place).
  \<^item> An exception is a value. What the file system and the JSON decoder deliver is an
    input of the embedding; the handlers of the source are branches of the definitions.
\<close>

subsection \<open>Exceptions and file reads\<close>

datatype py_exception =
    OSError string
  | ValueError string
  | TypeError string
  | OverflowError string
  | ZeroDivisionError string
  | CsvError string

fun exc_str :: "py_exception \<Rightarrow> string" where
  "exc_str (OSError m) = m"
| "exc_str (ValueError m) = m"
| "exc_str (TypeError m) = m"
| "exc_str (OverflowError m) = m"
| "exc_str (ZeroDivisionError m) = m"
| "exc_str (CsvError m) = m"

text \<open>
  What opening and reading one file as text gives: the open fails; or the whole text is
  read; or some text is delivered and a later read raises (an I/O or decoding error past
  the first buffers). A reader that takes the text in one call (\<open>f.read()\<close>,
  \<open>json.load\<close>) fails in the third case; a reader that iterates over lines has consumed
  the complete lines delivered before the exception reaches it.
\<close>

datatype file_read =
    OpenFails py_exception
  | Reads string
  | FailsAfter string py_exception

subsection \<open>Characters\<close>

definition cp :: "char \<Rightarrow> nat" where
  "cp c = of_char c"

definition in_range :: "nat \<Rightarrow> nat \<Rightarrow> char \<Rightarrow> bool" where
  "in_range lo hi c = (lo \<le> cp c \<and> cp c \<le> hi)"

text \<open>\<open>\d\<close>: the decimal digits (category Nd); below U+0100 these are \<open>0\<close> to \<open>9\<close>.\<close>

definition is_digit :: "char \<Rightarrow> bool" where
  "is_digit c = in_range 0x30 0x39 c"

text \<open>\<open>\w\<close>: alphanumeric code points and the underscore.\<close>

definition is_word :: "char \<Rightarrow> bool" where
  "is_word c =
     (in_range 0x30 0x39 c \<or> in_range 0x41 0x5A c \<or> cp c = 0x5F \<or> in_range 0x61 0x7A c \<or>
      cp c = 0xAA \<or> in_range 0xB2 0xB3 c \<or> cp c = 0xB5 \<or> in_range 0xB9 0xBA c \<or>
      in_range 0xBC 0xBE c \<or> in_range 0xC0 0xD6 c \<or> in_range 0xD8 0xF6 c \<or>
      in_range 0xF8 0xFF c)"

text \<open>\<open>\s\<close>: what \<open>str.isspace\<close> accepts.\<close>

definition is_space :: "char \<Rightarrow> bool" where
  "is_space c =
     (in_range 0x09 0x0D c \<or> in_range 0x1C 0x20 c \<or> cp c = 0x85 \<or> cp c = 0xA0)"

text \<open>UTF-8 of a code point below U+0100, and of a text.\<close>

definition utf8_char :: "char \<Rightarrow> string" where
  "utf8_char c =
     (if cp c < 0x80 then [c]
      else [char_of (0xC0 + cp c div 64), char_of (0x80 + cp c mod 64)])"

definition utf8 :: "string \<Rightarrow> string" where
  "utf8 s = concat (map utf8_char s)"

definition check_mark :: string where
  "check_mark = [CHR 0xE2, CHR 0x9C, CHR 0x85]"

definition cross_mark :: string where
  "cross_mark = [CHR 0xE2, CHR 0x9D, CHR 0x8C]"

subsection \<open>Substring test and the regular expressions of the extractor\<close>

fun starts_with :: "string \<Rightarrow> string \<Rightarrow> bool" where
  "starts_with s [] = True"
| "starts_with [] (p # ps) = False"
| "starts_with (c # cs) (p # ps) = (c = p \<and> starts_with cs ps)"

text \<open>Python's \<open>needle in content\<close> on strings.\<close>

fun py_in :: "string \<Rightarrow> string \<Rightarrow> bool" where
  "py_in needle [] = (needle = [])"
| "py_in needle (c # cs) = (starts_with (c # cs) needle \<or> py_in needle cs)"

text \<open>
  The patterns of the source use literals, capture groups \<open>(C+)\<close> over a character class
  \<open>C\<close> and one capture group of alternative literals. \<open>match_here\<close> is the backtracking
  matcher of \<open>re\<close> on that fragment, anchored at the start of the text: a \<open>+\<close> is greedy
  (the longest run first, then shorter ones), alternatives are tried in order. It returns
  the texts of the capture groups in order and the text after the match.
\<close>

datatype rx =
    Lit string
  | GPlus "char \<Rightarrow> bool"
  | GAlt "string list"

fun first_some :: "'a option list \<Rightarrow> 'a option" where
  "first_some [] = None"
| "first_some (None # xs) = first_some xs"
| "first_some (Some x # xs) = Some x"

definition add_group :: "string \<Rightarrow> (string list \<times> string) option \<Rightarrow> (string list \<times> string) option" where
  "add_group g r = map_option (\<lambda>(gs, rest). (g # gs, rest)) r"

fun match_here :: "rx list \<Rightarrow> string \<Rightarrow> (string list \<times> string) option" where
  "match_here [] s = Some ([], s)"
| "match_here (Lit l # p) s =
     (if starts_with s l then match_here p (drop (length l) s) else None)"
| "match_here (GPlus C # p) s =
     first_some (map (\<lambda>k. add_group (take k s) (match_here p (drop k s)))
                     (rev [1 ..< Suc (length (takeWhile C s))]))"
| "match_here (GAlt ls # p) s =
     first_some (map (\<lambda>l. if starts_with s l
                            then add_group l (match_here p (drop (length l) s)) else None) ls)"

text \<open>\<open>re.search\<close>: the match at the leftmost position that has one; its groups.\<close>

fun re_search :: "rx list \<Rightarrow> string \<Rightarrow> string list option" where
  "re_search p [] = map_option fst (match_here p [])"
| "re_search p (c # cs) =
     (case match_here p (c # cs) of
        Some (gs, rest) \<Rightarrow> Some gs
      | None \<Rightarrow> re_search p cs)"

text \<open>
  \<open>re.finditer\<close>: the matches from left to right, each search starting where the previous
  match ended. The patterns of this program match at least one character, so the special
  rules of \<open>re\<close> for empty matches never apply; the test on the lengths is what makes
  the scan a total function for every pattern.
\<close>

function finditer :: "rx list \<Rightarrow> string \<Rightarrow> string list list" where
  "finditer p [] = []"
| "finditer p (c # cs) =
     (case match_here p (c # cs) of
        Some (gs, rest) \<Rightarrow>
          if length rest < length (c # cs) then gs # finditer p rest else gs # finditer p cs
      | None \<Rightarrow> finditer p cs)"
  by pat_completeness auto
termination
  by (relation "measure (\<lambda>(p, s). length s)") auto

text \<open>\<open>r'Build ID: ([^\s\n]+)'\<close>\<close>

definition build_id_pattern :: "rx list" where
  "build_id_pattern = [Lit ''Build ID: '', GPlus (\<lambda>c. \<not> (is_space c \<or> c = CHR 0x0A))]"

text \<open>\<open>r'\[(\w+)\] Gate \'([^\']+)\': (PASS|FAIL)'\<close>\<close>

definition gate_pattern :: "rx list" where
  "gate_pattern =
     [Lit ''['', GPlus is_word, Lit (''] Gate '' @ [CHR 0x27]), GPlus (\<lambda>c. c \<noteq> CHR 0x27),
      Lit (CHR 0x27 # '': ''), GAlt [''PASS'', ''FAIL'']]"

text \<open>\<open>r'(\w+): ([\d.]+)'\<close>\<close>

definition metrics_pattern :: "rx list" where
  "metrics_pattern = [GPlus is_word, Lit '': '', GPlus (\<lambda>c. is_digit c \<or> c = CHR ''.'')]"

subsection \<open>Binary64 floating point\<close>

text \<open>
  A Python \<open>float\<close>: a sign (\<open>True\<close> for minus) with a magnitude that is a binary64
  value, an infinity, or not-a-number. \<open>round_b64\<close> is rounding to nearest, ties to even,
  of a non-negative rational to 53 significant bits, subnormal below \<open>2\<^sup>-\<^sup>1\<^sup>0\<^sup>2\<^sup>2\<close>; a
  rational at or above \<open>b64_overflow\<close> rounds beyond the largest finite value.
\<close>

datatype pyfloat = Fin bool rat | Inf bool | NaN

fun bit_len :: "nat \<Rightarrow> nat" where
  "bit_len n = (if n = 0 then 0 else Suc (bit_len (n div 2)))"

declare bit_len.simps [simp del]

definition pow2 :: "int \<Rightarrow> rat" where
  "pow2 k = (if 0 \<le> k then of_int (2 ^ nat k) else 1 / of_int (2 ^ nat (- k)))"

definition ilog2 :: "rat \<Rightarrow> int" where
  "ilog2 q =
     (let (a, b) = quotient_of q;
          k = int (bit_len (nat a)) - int (bit_len (nat b))
      in if pow2 k \<le> q then k else k - 1)"

definition round_half_even :: "rat \<Rightarrow> int" where
  "round_half_even q =
     (let f = \<lfloor>q\<rfloor>; r = q - of_int f
      in if r < 1 / 2 then f else if 1 / 2 < r then f + 1 else if even f then f else f + 1)"

definition round_b64 :: "rat \<Rightarrow> rat" where
  "round_b64 q =
     (if q = 0 then 0
      else let e = max (ilog2 q - 52) (- 1074)
           in of_int (round_half_even (q / pow2 e)) * pow2 e)"

definition b64_overflow :: rat where
  "b64_overflow = of_int (2 ^ 1024 - 2 ^ 970)"

text \<open>\<open>a / b\<close> on Python integers (true division): the exact quotient, rounded once.\<close>

definition int_truediv :: "int \<Rightarrow> int \<Rightarrow> py_exception + pyfloat" where
  "int_truediv a b =
     (if b = 0 then Inl (ZeroDivisionError ''division by zero'')
      else let q = \<bar>of_int a / of_int b\<bar>
           in if b64_overflow \<le> q
              then Inl (OverflowError ''integer division result too large for a float'')
              else Inr (Fin ((a < 0) \<noteq> (b < 0)) (round_b64 q)))"

text \<open>\<open>x * y\<close> on floats.\<close>

fun float_mul :: "pyfloat \<Rightarrow> pyfloat \<Rightarrow> pyfloat" where
  "float_mul (Fin s a) (Fin t b) =
     (if b64_overflow \<le> a * b then Inf (s \<noteq> t) else Fin (s \<noteq> t) (round_b64 (a * b)))"
| "float_mul (Fin s a) (Inf t) = (if a = 0 then NaN else Inf (s \<noteq> t))"
| "float_mul (Inf s) (Fin t b) = (if b = 0 then NaN else Inf (s \<noteq> t))"
| "float_mul (Inf s) (Inf t) = Inf (s \<noteq> t)"
| "float_mul NaN y = NaN"
| "float_mul x NaN = NaN"

text \<open>Decimal digits of a natural number, as \<open>str\<close> prints it.\<close>

definition digit_char :: "nat \<Rightarrow> char" where
  "digit_char d = ''0123456789'' ! (d mod 10)"

fun str_nat :: "nat \<Rightarrow> string" where
  "str_nat n = (if n < 10 then [digit_char n] else str_nat (n div 10) @ [digit_char n])"

declare str_nat.simps [simp del]

definition str_int :: "int \<Rightarrow> string" where
  "str_int i = (if i < 0 then CHR ''-'' # str_nat (nat (- i)) else str_nat (nat i))"

text \<open>
  The format \<open>.1f\<close>: the decimal with one fractional digit nearest to the exact value,
  ties to even.
\<close>

fun format_1f :: "pyfloat \<Rightarrow> string" where
  "format_1f (Fin s q) =
     (let n = nat (round_half_even (q * 10))
      in (if s then ''-'' else []) @ str_nat (n div 10) @ ''.'' @ [digit_char n])"
| "format_1f (Inf s) = (if s then ''-inf'' else ''inf'')"
| "format_1f NaN = ''nan''"

subsection \<open>\<open>float(str)\<close>\<close>

text \<open>
  The grammar of the built-in \<open>float\<close> on a string: white space around an optionally
  signed \<open>inf\<close>, \<open>infinity\<close>, \<open>nan\<close> (in any case) or decimal number with optional
  exponent, where single underscores may separate digits. \<open>None\<close> is \<open>ValueError\<close>.
\<close>

definition is_float_space :: "char \<Rightarrow> bool" where
  "is_float_space c = (in_range 0x09 0x0D c \<or> cp c = 0x20 \<or> cp c = 0x85 \<or> cp c = 0xA0)"

definition strip_float :: "string \<Rightarrow> string" where
  "strip_float s = rev (dropWhile is_float_space (rev (dropWhile is_float_space s)))"

definition ascii_lower :: "char \<Rightarrow> char" where
  "ascii_lower c = (if in_range 0x41 0x5A c then char_of (cp c + 32) else c)"

text \<open>The rest of a digit part after its first digit: the digits read, and the text left.\<close>

fun digits_tail :: "string \<Rightarrow> string \<Rightarrow> string \<times> string" where
  "digits_tail acc [] = (acc, [])"
| "digits_tail acc [c] = (if is_digit c then (acc @ [c], []) else (acc, [c]))"
| "digits_tail acc (c # d # ds) =
     (if is_digit c then digits_tail (acc @ [c]) (d # ds)
      else if c = CHR ''_'' \<and> is_digit d then digits_tail (acc @ [d]) ds
      else (acc, c # d # ds))"

fun digitpart :: "string \<Rightarrow> (string \<times> string) option" where
  "digitpart [] = None"
| "digitpart (c # cs) = (if is_digit c then Some (digits_tail [c] cs) else None)"

definition nat_of_digits :: "string \<Rightarrow> nat" where
  "nat_of_digits ds = foldl (\<lambda>n c. 10 * n + (cp c - 48)) 0 ds"

text \<open>An optional sign: whether it is a minus, and the text left.\<close>

fun opt_sign :: "string \<Rightarrow> bool \<times> string" where
  "opt_sign [] = (False, [])"
| "opt_sign (c # cs) =
     (if c = CHR ''-'' then (True, cs) else if c = CHR ''+'' then (False, cs) else (False, c # cs))"

text \<open>The exponent part: \<open>None\<close> if malformed, else the power of ten and the text left.\<close>

definition exponent :: "string \<Rightarrow> (int \<times> string) option" where
  "exponent s =
     (case s of
        [] \<Rightarrow> Some (0, [])
      | c # cs \<Rightarrow>
          if c = CHR ''e'' \<or> c = CHR ''E'' then
            (let (neg, r) = opt_sign cs
             in case digitpart r of
                  None \<Rightarrow> None
                | Some (ds, r') \<Rightarrow>
                    Some (if neg then - int (nat_of_digits ds) else int (nat_of_digits ds), r'))
          else Some (0, c # cs))"

text \<open>The digits before and after the point (\<open>None\<close> if neither is there), and the text left.\<close>

definition mantissa :: "string \<Rightarrow> (string \<times> string \<times> string) option" where
  "mantissa s =
     (let (ip, r) = (case digitpart s of None \<Rightarrow> ([], s) | Some (ds, r) \<Rightarrow> (ds, r))
      in case r of
           c # cs \<Rightarrow>
             if c = CHR ''.'' then
               (case digitpart cs of
                  None \<Rightarrow> if ip = [] then None else Some (ip, [], cs)
                | Some (fp, r') \<Rightarrow> Some (ip, fp, r'))
             else if ip = [] then None else Some (ip, [], r)
         | [] \<Rightarrow> if ip = [] then None else Some (ip, [], []))"

definition pow10 :: "int \<Rightarrow> rat" where
  "pow10 k = (if 0 \<le> k then of_int (10 ^ nat k) else 1 / of_int (10 ^ nat (- k)))"

definition float_of_str :: "string \<Rightarrow> pyfloat option" where
  "float_of_str s =
     (let (neg, r) = opt_sign (strip_float s);
          w = map ascii_lower r
      in if w = ''inf'' \<or> w = ''infinity'' then Some (Inf neg)
         else if w = ''nan'' then Some NaN
         else case mantissa r of
                None \<Rightarrow> None
              | Some (ip, fp, r1) \<Rightarrow>
                  (case exponent r1 of
                     None \<Rightarrow> None
                   | Some (ex, r2) \<Rightarrow>
                       if r2 \<noteq> [] then None
                       else let q = of_nat (nat_of_digits (ip @ fp)) * pow10 (ex - int (length fp))
                            in if b64_overflow \<le> q then Some (Inf neg)
                               else Some (Fin neg (round_b64 q))))"

subsection \<open>The log extractor\<close>

text \<open>
  The result dictionary of \<open>parse_log_file\<close>. The key \<open>metrics\<close> is absent until the
  extractor assigns it, hence the option.
\<close>

record log_results =
  gates :: "(string \<times> bool) list"
  overall_success :: bool
  execution_time :: int
  build_id :: string
  timestamp :: "string option"
  metrics :: "(string \<times> pyfloat) list option"

text \<open>
  The assignments of the gate loop in the order it makes them: for every match, the gate
  name \<open>match.group(2)\<close> and whether \<open>match.group(3)\<close> is \<open>PASS\<close>.
\<close>

fun gate_entry :: "string list \<Rightarrow> (string \<times> bool) list" where
  "gate_entry [g1, g2, g3] = [(g2, g3 = ''PASS'')]"
| "gate_entry m = []"

definition gate_matches :: "string \<Rightarrow> (string \<times> bool) list" where
  "gate_matches content = concat (map gate_entry (finditer gate_pattern content))"

text \<open>
  The metrics loop over the matches: \<open>float(match.group(2))\<close> raises \<open>ValueError\<close> at the
  first number part that is no float literal, and the loop ends there.
\<close>

fun extract_metrics ::
  "string list list \<Rightarrow> (string \<times> pyfloat) list \<Rightarrow> py_exception + (string \<times> pyfloat) list" where
  "extract_metrics [] acc = Inr acc"
| "extract_metrics ([g1, g2] # ms) acc =
     (case float_of_str g2 of
        None \<Rightarrow> Inl (ValueError (''could not convert string to float: '' @ [CHR 0x27] @ g2 @ [CHR 0x27]))
      | Some metric_value \<Rightarrow> extract_metrics ms (AList.update g1 metric_value acc))"
| "extract_metrics (m # ms) acc = extract_metrics ms acc"

definition log_error :: "string \<Rightarrow> py_exception \<Rightarrow> string" where
  "log_error log_path e = ''Error parsing log file '' @ utf8 log_path @ '': '' @ utf8 (exc_str e)"

text \<open>
  \<open>parse_log_file\<close> returns the result dictionary; the second component is what it prints.
\<close>

definition parse_log_file :: "string \<Rightarrow> file_read \<Rightarrow> log_results \<times> string list" where
  "parse_log_file log_path f =
     (let results = \<lparr>gates = [], overall_success = False, execution_time = 0,
                      build_id = ''unknown'', timestamp = None, metrics = None\<rparr>
      in case f of
           OpenFails e \<Rightarrow> (results, [log_error log_path e])
         | FailsAfter t e \<Rightarrow> (results, [log_error log_path e])
         | Reads content \<Rightarrow>
             (let results = (case re_search build_id_pattern content of
                               Some [g1] \<Rightarrow> results\<lparr>build_id := g1\<rparr>
                             | _ \<Rightarrow> results);
                  results = (if py_in ''ALL PERFORMANCE GATES PASSED'' content
                             then results\<lparr>overall_success := True\<rparr>
                             else if py_in ''PERFORMANCE GATES FAILED'' content
                             then results\<lparr>overall_success := False\<rparr>
                             else results);
                  results = results\<lparr>gates :=
                              fold (\<lambda>(gate_name, gate_result). AList.update gate_name gate_result)
                                   (gate_matches content) (gates results)\<rparr>
              in case extract_metrics (finditer metrics_pattern content) [] of
                   Inl e \<Rightarrow> (results, [log_error log_path e])
                 | Inr ms \<Rightarrow> (results\<lparr>metrics := Some ms\<rparr>, [])))"

subsection \<open>The tabular reader\<close>

text \<open>
  Lines as a text file opened with universal newlines yields them: each of \<open>\n\<close>,
  \<open>\r\<close> and \<open>\r\n\<close> ends a line and is delivered as \<open>\n\<close>; a last line without
  terminator is delivered as it is.
\<close>

fun split_lines :: "string \<Rightarrow> string \<Rightarrow> string list" where
  "split_lines cur [] = (if cur = [] then [] else [cur])"
| "split_lines cur [c] =
     (if c = CHR 0x0A \<or> c = CHR 0x0D then [cur @ [CHR 0x0A]] else [cur @ [c]])"
| "split_lines cur (c # d # ds) =
     (if c = CHR 0x0A then (cur @ [CHR 0x0A]) # split_lines [] (d # ds)
      else if c = CHR 0x0D then
        (if d = CHR 0x0A then (cur @ [CHR 0x0A]) # split_lines [] ds
         else (cur @ [CHR 0x0A]) # split_lines [] (d # ds))
      else split_lines (cur @ [c]) (d # ds))"

definition ends_with :: "string \<Rightarrow> string \<Rightarrow> bool" where
  "ends_with s suffix = starts_with (rev s) (rev suffix)"

text \<open>
  The lines a reader gets from a file, and the exception that ends the iteration (none at
  a regular end of file). When the read fails after some text, only the lines completed
  before that were delivered.
\<close>

fun file_lines :: "file_read \<Rightarrow> string list \<times> py_exception option" where
  "file_lines (OpenFails e) = ([], Some e)"
| "file_lines (Reads t) = (split_lines [] t, None)"
| "file_lines (FailsAfter t e) = (filter (\<lambda>l. ends_with l [CHR 0x0A]) (split_lines [] t), Some e)"

text \<open>
  The parser of \<open>csv.reader\<close> in the default dialect (delimiter \<open>,\<close>, quote character
  \<open>"\<close> doubled inside quoted fields, no escape character, not strict): the state machine
  of the \<open>_csv\<close> module, fed the characters of each line and then an end-of-line mark.
\<close>

datatype csv_state =
  START_RECORD | START_FIELD | IN_FIELD | IN_QUOTED_FIELD | QUOTE_IN_QUOTED_FIELD | EAT_CRNL

datatype csv_char = Ch char | EOL

record csv_parser =
  pstate :: csv_state
  pfield :: string
  pfields :: "string list"

definition field_limit :: int where
  "field_limit = 131072"

definition parse_reset :: csv_parser where
  "parse_reset = \<lparr>pstate = START_RECORD, pfield = [], pfields = []\<rparr>"

definition parse_add_char :: "csv_parser \<Rightarrow> char \<Rightarrow> py_exception + csv_parser" where
  "parse_add_char p c =
     (if field_limit \<le> int (length (pfield p))
      then Inl (CsvError ''field larger than field limit (131072)'')
      else Inr (p\<lparr>pfield := pfield p @ [c]\<rparr>))"

definition parse_save_field :: "csv_parser \<Rightarrow> csv_parser" where
  "parse_save_field p = p\<lparr>pfields := pfields p @ [pfield p], pfield := []\<rparr>"

definition is_newline :: "csv_char \<Rightarrow> bool" where
  "is_newline c = (c = Ch (CHR 0x0A) \<or> c = Ch (CHR 0x0D))"

definition end_of_field :: "csv_parser \<Rightarrow> csv_char \<Rightarrow> csv_parser" where
  "end_of_field p c = (parse_save_field p)\<lparr>pstate := (if c = EOL then START_RECORD else EAT_CRNL)\<rparr>"

definition add_then :: "csv_state \<Rightarrow> csv_parser \<Rightarrow> csv_char \<Rightarrow> py_exception + csv_parser" where
  "add_then st p c =
     (case c of
        EOL \<Rightarrow> Inr p
      | Ch x \<Rightarrow> map_sum id (\<lambda>q. q\<lparr>pstate := st\<rparr>) (parse_add_char p x))"

definition start_field :: "csv_parser \<Rightarrow> csv_char \<Rightarrow> py_exception + csv_parser" where
  "start_field p c =
     (if is_newline c \<or> c = EOL then Inr (end_of_field p c)
      else if c = Ch (CHR 0x22) then Inr (p\<lparr>pstate := IN_QUOTED_FIELD\<rparr>)
      else if c = Ch (CHR '','') then Inr (parse_save_field p)
      else add_then IN_FIELD p c)"

fun parse_process_char :: "csv_state \<Rightarrow> csv_parser \<Rightarrow> csv_char \<Rightarrow> py_exception + csv_parser" where
  "parse_process_char START_RECORD p c =
     (if c = EOL then Inr p
      else if is_newline c then Inr (p\<lparr>pstate := EAT_CRNL\<rparr>)
      else start_field (p\<lparr>pstate := START_FIELD\<rparr>) c)"
| "parse_process_char START_FIELD p c = start_field p c"
| "parse_process_char IN_FIELD p c =
     (if is_newline c \<or> c = EOL then Inr (end_of_field p c)
      else if c = Ch (CHR '','') then Inr ((parse_save_field p)\<lparr>pstate := START_FIELD\<rparr>)
      else add_then IN_FIELD p c)"
| "parse_process_char IN_QUOTED_FIELD p c =
     (if c = EOL then Inr p
      else if c = Ch (CHR 0x22) then Inr (p\<lparr>pstate := QUOTE_IN_QUOTED_FIELD\<rparr>)
      else add_then IN_QUOTED_FIELD p c)"
| "parse_process_char QUOTE_IN_QUOTED_FIELD p c =
     (if c = Ch (CHR 0x22) then add_then IN_QUOTED_FIELD p c
      else if c = Ch (CHR '','') then Inr ((parse_save_field p)\<lparr>pstate := START_FIELD\<rparr>)
      else if is_newline c \<or> c = EOL then Inr (end_of_field p c)
      else add_then IN_FIELD p c)"
| "parse_process_char EAT_CRNL p c =
     (if is_newline c then Inr p
      else if c = EOL then Inr (p\<lparr>pstate := START_RECORD\<rparr>)
      else Inl (CsvError ''new-line character seen in unquoted field - do you need to open the file in universal-newline mode?''))"

text \<open>One line: its characters, then the end-of-line mark.\<close>

fun process_line :: "csv_parser \<Rightarrow> string \<Rightarrow> py_exception + csv_parser" where
  "process_line p [] = parse_process_char (pstate p) p EOL"
| "process_line p (c # cs) =
     (case parse_process_char (pstate p) p (Ch c) of
        Inl e \<Rightarrow> Inl e
      | Inr q \<Rightarrow> process_line q cs)"

text \<open>
  Iterating the reader: the records it yields and the exception that ends the iteration,
  if one does. A record is complete when a line leaves the parser in \<open>START_RECORD\<close>; at
  the end of the input an open quoted field is closed and its record yielded.
\<close>

fun csv_reader :: "csv_parser \<Rightarrow> string list \<Rightarrow> py_exception option \<Rightarrow> string list list \<times> py_exception option" where
  "csv_reader p [] (Some e) = ([], Some e)"
| "csv_reader p [] None =
     (if pfield p \<noteq> [] \<or> pstate p = IN_QUOTED_FIELD then ([pfields (parse_save_field p)], None)
      else ([], None))"
| "csv_reader p (l # ls) exc =
     (case process_line p l of
        Inl e \<Rightarrow> ([], Some e)
      | Inr q \<Rightarrow>
          if pstate q = START_RECORD
          then (let (rows, x) = csv_reader parse_reset ls exc in (pfields q # rows, x))
          else csv_reader q ls exc)"

text \<open>
  A cell of a row dictionary: a string as read, the number it was converted to, the
  \<open>None\<close> that \<open>csv.DictReader\<close> fills in for a missing field, or the list of surplus
  fields it stores under the key \<open>None\<close>.
\<close>

datatype cell = Str string | Num pyfloat | NoneCell | Rest "string list"

type_synonym row = "(string option \<times> cell) list"

definition make_row :: "string list \<Rightarrow> string list \<Rightarrow> row" where
  "make_row fieldnames r =
     (let d = fold (\<lambda>(k, v). AList.update (Some k) (Str v)) (zip fieldnames r) [];
          lf = length fieldnames;
          lr = length r
      in if lf < lr then AList.update None (Rest (drop lf r)) d
         else if lr < lf then fold (\<lambda>k. AList.update (Some k) NoneCell) (drop lr fieldnames) d
         else d)"

text \<open>\<open>csv.DictReader\<close>: the first record gives the field names; empty records are skipped.\<close>

fun dict_reader :: "string list list \<times> py_exception option \<Rightarrow> row list \<times> py_exception option" where
  "dict_reader ([], exc) = ([], exc)"
| "dict_reader (fieldnames # records, exc) =
     (map (make_row fieldnames) (filter (\<lambda>r. r \<noteq> []) records), exc)"

text \<open>\<open>float(value)\<close> on a cell, and the conversion loop over the items of a row.\<close>

fun cell_to_float :: "cell \<Rightarrow> py_exception + pyfloat" where
  "cell_to_float (Str s) =
     (case float_of_str s of
        None \<Rightarrow> Inl (ValueError ''could not convert string to float'')
      | Some x \<Rightarrow> Inr x)"
| "cell_to_float (Num x) = Inr x"
| "cell_to_float NoneCell = Inl (TypeError ''float() argument must be a string or a real number'')"
| "cell_to_float (Rest xs) = Inl (TypeError ''float() argument must be a string or a real number'')"

definition convert_row :: "row \<Rightarrow> row" where
  "convert_row r = map (\<lambda>(key, v). (key, case cell_to_float v of Inr x \<Rightarrow> Num x | Inl e \<Rightarrow> v)) r"

definition csv_error :: "string \<Rightarrow> py_exception \<Rightarrow> string" where
  "csv_error csv_path e = ''Error parsing CSV file '' @ utf8 csv_path @ '': '' @ utf8 (exc_str e)"

definition parse_csv_report :: "string \<Rightarrow> file_read \<Rightarrow> row list \<times> string list" where
  "parse_csv_report csv_path f =
     (let (lines, exc) = file_lines f;
          (rows, raised) = dict_reader (csv_reader parse_reset lines exc);
          data = map convert_row rows
      in case raised of
           None \<Rightarrow> (data, [])
         | Some e \<Rightarrow> (data, [csv_error csv_path e]))"

subsection \<open>The structured reader\<close>

text \<open>
  A decoded JSON value. The decoder \<open>json.load\<close> is not part of the program: it is a
  parameter \<open>load\<close>, from the text of a file to a value or the exception raised.
\<close>

datatype json =
    JNull
  | JBool bool
  | JInt int
  | JFloat pyfloat
  | JStr string
  | JArr "json list"
  | JObj "(string \<times> json) list"

text \<open>The truth value of a decoded value, as \<open>if json_data:\<close> tests it.\<close>

fun truthy :: "json \<Rightarrow> bool" where
  "truthy JNull = False"
| "truthy (JBool b) = b"
| "truthy (JInt i) = (i \<noteq> 0)"
| "truthy (JFloat (Fin s q)) = (q \<noteq> 0)"
| "truthy (JFloat x) = True"
| "truthy (JStr t) = (t \<noteq> [])"
| "truthy (JArr xs) = (xs \<noteq> [])"
| "truthy (JObj kvs) = (kvs \<noteq> [])"

definition json_error :: "string \<Rightarrow> py_exception \<Rightarrow> string" where
  "json_error json_path e = ''Error parsing JSON file '' @ utf8 json_path @ '': '' @ utf8 (exc_str e)"

definition parse_json_report ::
  "(string \<Rightarrow> py_exception + json) \<Rightarrow> string \<Rightarrow> file_read \<Rightarrow> json \<times> string list" where
  "parse_json_report load json_path f =
     (case (case f of
              OpenFails e \<Rightarrow> Inl e
            | FailsAfter t e \<Rightarrow> Inl e
            | Reads t \<Rightarrow> load t) of
        Inl e \<Rightarrow> (JObj [], [json_error json_path e])
      | Inr v \<Rightarrow> (v, []))"

subsection \<open>The aggregator\<close>

text \<open>
  The dictionary \<open>analysis\<close>. Two keys are renamed because a record cannot share field
  names with \<open>log_results\<close>: \<open>all_gates\<close> is \<open>analysis['gates']\<close> and
  \<open>run_overall_success\<close> is \<open>analysis['summary']['overall_success']\<close>.
\<close>

record summary_rec =
  total_gates :: int
  passed_gates :: int
  failed_gates :: int
  run_overall_success :: bool
  analysis_timestamp :: string

record report =
  report_name :: string
  report_path :: string
  report_data :: json

record analysis =
  summary :: summary_rec
  all_gates :: "(string \<times> bool) list"
  performance_data :: "(string \<times> row list) list"
  reports :: "report list"

text \<open>
  What the standard library contributes beyond the parts modelled above: the JSON decoder,
  the JSON encoder of \<open>json.dump(analysis, f, indent=2, default=str)\<close>, and the three
  numbers \<open>min\<close>, \<open>max\<close> and \<open>sum/len\<close> of a column in the format \<open>.2f\<close>.
\<close>

record lib =
  json_load :: "string \<Rightarrow> py_exception + json"
  json_dump :: "analysis \<Rightarrow> string"
  column_stats :: "pyfloat list \<Rightarrow> string \<times> string \<times> string"

text \<open>
  One entry of the artifact tree as a glob enumerates it: the final component of its
  path, the path as \<open>str\<close> prints it, and what reading it gives.
\<close>

record artifact =
  file_name :: string
  file_path :: string
  contents :: file_read

text \<open>\<open>Path.stem\<close>: the final component without its last suffix.\<close>

definition stem :: "string \<Rightarrow> string" where
  "stem n =
     (let after = length (takeWhile (\<lambda>c. c \<noteq> CHR ''.'') (rev n))
      in if after = length n then n
         else let i = length n - after - 1
              in if 0 < i \<and> i < length n - 1 then take i n else n)"

text \<open>The body of the loop over the gates of one log file.\<close>

definition merge_gate :: "string \<times> bool \<Rightarrow> analysis \<Rightarrow> analysis" where
  "merge_gate = (\<lambda>(gate_name, gate_result) a.
     let a = a\<lparr>all_gates := AList.update gate_name gate_result (all_gates a)\<rparr>;
         a = a\<lparr>summary := (summary a)\<lparr>total_gates := total_gates (summary a) + 1\<rparr>\<rparr>
     in if gate_result
        then a\<lparr>summary := (summary a)\<lparr>passed_gates := passed_gates (summary a) + 1\<rparr>\<rparr>
        else a\<lparr>summary := (summary a)\<lparr>failed_gates := failed_gates (summary a) + 1\<rparr>\<rparr>)"

text \<open>Folding the result of one log file into the analysis.\<close>

definition merge_log :: "log_results \<Rightarrow> analysis \<Rightarrow> analysis" where
  "merge_log log_results a =
     (let a = fold merge_gate (gates log_results) a
      in if overall_success log_results
         then a\<lparr>summary := (summary a)\<lparr>run_overall_success := True\<rparr>\<rparr>
         else a)"

definition new_analysis :: "string \<Rightarrow> analysis" where
  "new_analysis now =
     \<lparr>summary = \<lparr>total_gates = 0, passed_gates = 0, failed_gates = 0,
                 run_overall_success = False, analysis_timestamp = now\<rparr>,
      all_gates = [], performance_data = [], reports = []\<rparr>"

text \<open>
  The log files in the order they are visited: the matches of
  \<open>**/performance-gates.log\<close>, then the matches of \<open>**/*.log\<close>.
\<close>

definition log_files :: "artifact list \<Rightarrow> artifact list" where
  "log_files tree =
     filter (\<lambda>x. file_name x = ''performance-gates.log'') tree @
     filter (\<lambda>x. ends_with (file_name x) ''.log'') tree"

definition csv_files :: "artifact list \<Rightarrow> artifact list" where
  "csv_files tree = filter (\<lambda>x. ends_with (file_name x) ''.csv'') tree"

definition json_files :: "artifact list \<Rightarrow> artifact list" where
  "json_files tree = filter (\<lambda>x. ends_with (file_name x) ''.json'') tree"

text \<open>The three loop bodies; the second component collects the printed lines.\<close>

definition visit_log :: "artifact \<Rightarrow> analysis \<times> string list \<Rightarrow> analysis \<times> string list" where
  "visit_log log_file = (\<lambda>(a, out).
     let (log_results, printed) = parse_log_file (file_path log_file) (contents log_file)
     in (merge_log log_results a,
         out @ [''Parsing log file: '' @ utf8 (file_path log_file)] @ printed))"

definition visit_csv :: "artifact \<Rightarrow> analysis \<times> string list \<Rightarrow> analysis \<times> string list" where
  "visit_csv csv_file = (\<lambda>(a, out).
     let (csv_data, printed) = parse_csv_report (file_path csv_file) (contents csv_file)
     in ((if csv_data \<noteq> []
          then a\<lparr>performance_data :=
                   AList.update (stem (file_name csv_file)) csv_data (performance_data a)\<rparr>
          else a),
         out @ [''Parsing CSV file: '' @ utf8 (file_path csv_file)] @ printed))"

definition visit_json :: "lib \<Rightarrow> artifact \<Rightarrow> analysis \<times> string list \<Rightarrow> analysis \<times> string list" where
  "visit_json L json_file = (\<lambda>(a, out).
     let (json_data, printed) =
           parse_json_report (json_load L) (file_path json_file) (contents json_file)
     in ((if truthy json_data
          then a\<lparr>reports := reports a @
                   [\<lparr>report_name = stem (file_name json_file),
                     report_path = file_path json_file,
                     report_data = json_data\<rparr>]\<rparr>
          else a),
         out @ [''Parsing JSON file: '' @ utf8 (file_path json_file)] @ printed))"

text \<open>
  \<open>analyze_artifacts_directory\<close>: \<open>now\<close> is \<open>datetime.utcnow().isoformat()\<close> at the
  start, \<open>tree\<close> the entries below the artifacts directory in enumeration order.
\<close>

definition analyze_artifacts_directory ::
  "lib \<Rightarrow> string \<Rightarrow> string \<Rightarrow> artifact list \<Rightarrow> analysis \<times> string list" where
  "analyze_artifacts_directory L now artifacts_dir tree =
     fold (visit_json L) (json_files tree)
       (fold visit_csv (csv_files tree)
         (fold visit_log (log_files tree)
           (new_analysis now, [''Analyzing artifacts in: '' @ utf8 artifacts_dir])))"

subsection \<open>The Markdown renderer\<close>

definition nl :: string where
  "nl = [CHR 0x0A]"

text \<open>\<open>(passed / total) * 100\<close>\<close>

definition success_rate :: "int \<Rightarrow> int \<Rightarrow> py_exception + pyfloat" where
  "success_rate passed_count total_count =
     map_sum id (\<lambda>x. float_mul x (Fin False 100)) (int_truediv passed_count total_count)"

text \<open>
  The document is given as the strings of the successive \<open>f.write\<close> calls, block by
  block in the order of the source.
\<close>

definition title_block :: "analysis \<Rightarrow> string list" where
  "title_block a =
     [''# Performance Gates Analysis Summary'' @ nl @ nl,
      ''**Analysis Timestamp**: '' @ utf8 (analysis_timestamp (summary a)) @ nl @ nl]"

definition status_block :: "analysis \<Rightarrow> string list" where
  "status_block a =
     (let status_emoji = (if run_overall_success (summary a) then check_mark else cross_mark);
          status_text = (if run_overall_success (summary a) then ''PASSED'' else ''FAILED'')
      in [''## Overall Status: '' @ status_emoji @ '' '' @ status_text @ nl @ nl])"

text \<open>
  The statistics block, with the exception that interrupts it if the division raises.
\<close>

definition statistics_block :: "analysis \<Rightarrow> string list \<times> py_exception option" where
  "statistics_block a =
     (let counts =
            [''## Summary Statistics'' @ nl @ nl,
             ''- **Total Gates**: '' @ str_int (total_gates (summary a)) @ nl,
             ''- **Passed Gates**: '' @ str_int (passed_gates (summary a)) @ nl,
             ''- **Failed Gates**: '' @ str_int (failed_gates (summary a)) @ nl]
      in if 0 < total_gates (summary a) then
           (case success_rate (passed_gates (summary a)) (total_gates (summary a)) of
              Inl e \<Rightarrow> (counts, Some e)
            | Inr rate \<Rightarrow> (counts @ [''- **Success Rate**: '' @ format_1f rate @ ''%'' @ nl, nl], None))
         else (counts @ [nl], None))"

definition gates_block :: "analysis \<Rightarrow> string list" where
  "gates_block a =
     (if all_gates a \<noteq> [] then
        [''## Individual Gate Results'' @ nl @ nl,
         ''| Gate Name | Status |'' @ nl,
         ''|-----------|--------|'' @ nl] @
        map (\<lambda>(gate_name, gate_result).
               ''| '' @ utf8 gate_name @ '' | '' @
               (if gate_result then check_mark else cross_mark) @ '' '' @
               (if gate_result then ''PASS'' else ''FAIL'') @ '' |'' @ nl) (all_gates a) @
        [nl]
      else [])"

text \<open>A key of a row as \<open>str\<close> formats it, and the numeric test \<open>isinstance(v, (int, float))\<close>.\<close>

definition key_str :: "string option \<Rightarrow> string" where
  "key_str k = (case k of None \<Rightarrow> ''None'' | Some t \<Rightarrow> t)"

fun numeric :: "cell \<Rightarrow> pyfloat list" where
  "numeric (Num x) = [x]"
| "numeric c = []"

definition numeric_columns :: "row list \<Rightarrow> string option list" where
  "numeric_columns data =
     (case data of
        [] \<Rightarrow> []
      | first # others \<Rightarrow> map fst (filter (\<lambda>(key, v). numeric v \<noteq> []) first))"

definition column_values :: "string option \<Rightarrow> row list \<Rightarrow> pyfloat list" where
  "column_values col data =
     concat (map (\<lambda>r. case map_of r col of None \<Rightarrow> [] | Some v \<Rightarrow> numeric v) data)"

definition column_line :: "lib \<Rightarrow> row list \<Rightarrow> string option \<Rightarrow> string list" where
  "column_line L data col =
     (let vals = column_values col data
      in if vals \<noteq> [] then
           (let (min_val, max_val, avg_val) = column_stats L vals
            in [''| '' @ utf8 (key_str col) @ '' | '' @ min_val @ '' | '' @ max_val @ '' | '' @
                avg_val @ '' |'' @ nl])
         else [])"

definition report_block :: "lib \<Rightarrow> string \<times> row list \<Rightarrow> string list" where
  "report_block L = (\<lambda>(name, data).
     [''### '' @ utf8 name @ nl @ nl] @
     (if data \<noteq> [] \<and> numeric_columns data \<noteq> [] then
        [''| Metric | Min | Max | Average |'' @ nl,
         ''|--------|-----|-----|----------|'' @ nl] @
        concat (map (column_line L data) (numeric_columns data)) @
        [nl]
      else []) @
     [''**Data Points**: '' @ str_nat (length data) @ nl @ nl])"

definition performance_block :: "lib \<Rightarrow> analysis \<Rightarrow> string list" where
  "performance_block L a =
     (if performance_data a \<noteq> [] then
        [''## Performance Data Summary'' @ nl @ nl] @
        concat (map (report_block L) (performance_data a))
      else [])"

definition reports_block :: "analysis \<Rightarrow> string list" where
  "reports_block a =
     (if reports a \<noteq> [] then
        [''## Available Reports'' @ nl @ nl] @
        map (\<lambda>r. ''- **'' @ utf8 (report_name r) @ ''**: '' @ utf8 (report_path r) @ nl) (reports a) @
        [nl]
      else [])"

definition recommendations_block :: "analysis \<Rightarrow> string list" where
  "recommendations_block a =
     [''## Recommendations'' @ nl @ nl] @
     (if 0 < failed_gates (summary a) then
        [cross_mark @ '' **Action Required**: Some performance gates have failed.'' @ nl @ nl,
         ''**Failed Gates:**'' @ nl] @
        map (\<lambda>(gate_name, gate_result). ''- '' @ utf8 gate_name @ nl)
            (filter (\<lambda>(gate_name, gate_result). \<not> gate_result) (all_gates a)) @
        [nl,
         ''**Next Steps:**'' @ nl,
         ''1. Review the detailed logs for each failed gate'' @ nl,
         ''2. Address the specific issues identified'' @ nl,
         ''3. Re-run the performance gates'' @ nl,
         ''4. Consider adjusting performance thresholds if appropriate'' @ nl]
      else
        [check_mark @ '' **All Clear**: All performance gates have passed successfully.'' @ nl @ nl,
         ''**Next Steps:**'' @ nl,
         ''1. Proceed with build deployment'' @ nl,
         ''2. Monitor performance metrics in production'' @ nl,
         ''3. Consider tightening performance thresholds for continuous improvement'' @ nl])"

text \<open>What is written to the summary file, and the exception that ends the writing early.\<close>

definition summary_writes :: "lib \<Rightarrow> analysis \<Rightarrow> string list \<times> py_exception option" where
  "summary_writes L a =
     (let (stats, raised) = statistics_block a;
          start = title_block a @ status_block a @ stats
      in case raised of
           Some e \<Rightarrow> (start, Some e)
         | None \<Rightarrow>
             (start @ gates_block a @ performance_block L a @ reports_block a @
              recommendations_block a, None))"

text \<open>
  \<open>str(Path(dir) / n)\<close> for a file name \<open>n\<close>, on POSIX: the parts of \<open>dir\<close> between
  slashes without the empty ones and the single dots, after the root (\<open>//\<close> for exactly
  two leading slashes, \<open>/\<close> for any other number of them).
\<close>

fun split_slash :: "string \<Rightarrow> string \<Rightarrow> string list" where
  "split_slash cur [] = [cur]"
| "split_slash cur (c # cs) =
     (if c = CHR ''/'' then cur # split_slash [] cs else split_slash (cur @ [c]) cs)"

definition path_parts :: "string \<Rightarrow> string list" where
  "path_parts dir = filter (\<lambda>q. q \<noteq> [] \<and> q \<noteq> ''.'') (split_slash [] dir)"

definition path_root :: "string \<Rightarrow> string" where
  "path_root dir =
     (if starts_with dir ''//'' \<and> \<not> starts_with dir ''///'' then ''//''
      else if starts_with dir ''/'' then ''/''
      else [])"

definition path_join :: "string \<Rightarrow> string \<Rightarrow> string" where
  "path_join dir n = path_root dir @ concat (map (\<lambda>q. q @ ''/'') (path_parts dir)) @ n"

text \<open>
  The outcome of a call that writes files: the files written (path and content), the
  lines printed, and the value returned or the exception raised.
\<close>

definition generate_summary_report ::
  "lib \<Rightarrow> analysis \<Rightarrow> string \<Rightarrow> (string \<times> string) list \<times> string list \<times> (py_exception + string)" where
  "generate_summary_report L a output_dir =
     (let output_path = path_join output_dir ''performance-analysis-summary.md'';
          (writes, raised) = summary_writes L a
      in case raised of
           Some e \<Rightarrow> ([(output_path, concat writes)], [], Inl e)
         | None \<Rightarrow>
             ([(output_path, concat writes)],
              [''Summary report generated: '' @ utf8 output_path],
              Inr output_path))"

subsection \<open>The machine-readable renderer\<close>

text \<open>
  \<open>csv.writer\<close> in the default dialect: a field is quoted when it contains the
  delimiter, the quote character or a character of the line terminator \<open>\r\n\<close>, quote
  characters inside are doubled, and a row that is one empty field is written quoted.
\<close>

definition csv_field :: "string \<Rightarrow> string" where
  "csv_field t =
     (if \<exists>c \<in> set t. c = CHR '','' \<or> c = CHR 0x22 \<or> c = CHR 0x0D \<or> c = CHR 0x0A
      then [CHR 0x22] @ concat (map (\<lambda>c. if c = CHR 0x22 then [c, c] else [c]) t) @ [CHR 0x22]
      else t)"

fun join_fields :: "string list \<Rightarrow> string" where
  "join_fields [] = []"
| "join_fields [t] = t"
| "join_fields (t # u # us) = t @ '','' @ join_fields (u # us)"

definition writerow :: "string list \<Rightarrow> string" where
  "writerow r =
     (if r = [[]] then [CHR 0x22, CHR 0x22] else join_fields (map csv_field r)) @
     [CHR 0x0D, CHR 0x0A]"

definition str_bool :: "bool \<Rightarrow> string" where
  "str_bool b = (if b then ''True'' else ''False'')"

definition gate_results_csv :: "analysis \<Rightarrow> string" where
  "gate_results_csv a =
     utf8 (writerow [''Gate Name'', ''Status'', ''Success''] @
           concat (map (\<lambda>(gate_name, gate_result).
                          writerow [gate_name, if gate_result then ''PASS'' else ''FAIL'',
                                    str_bool gate_result]) (all_gates a)))"

definition generate_detailed_analysis ::
  "lib \<Rightarrow> analysis \<Rightarrow> string \<Rightarrow> (string \<times> string) list \<times> string list" where
  "generate_detailed_analysis L a output_dir =
     (let analysis_json_path = path_join output_dir ''full-analysis.json'';
          gates_csv_path = path_join output_dir ''gate-results.csv''
      in if all_gates a \<noteq> [] then
           ([(analysis_json_path, json_dump L a), (gates_csv_path, gate_results_csv a)],
            [''Detailed analysis saved: '' @ utf8 analysis_json_path,
             ''Gate results CSV saved: '' @ utf8 gates_csv_path])
         else
           ([(analysis_json_path, json_dump L a)],
            [''Detailed analysis saved: '' @ utf8 analysis_json_path]))"

subsection \<open>The entry point\<close>

record args =
  artifacts_dir :: string
  output_dir :: string
  verbose :: bool

text \<open>
  A run of the program: its exit status, the files it wrote and the lines it printed. An
  exception that nothing catches ends the run with status 1.
\<close>

record run =
  exit_code :: int
  written :: "(string \<times> string) list"
  console :: "string list"

text \<open>
  \<open>main\<close> after the arguments are parsed. \<open>tree\<close> is \<open>None\<close> when the artifacts path
  does not exist, else the entries below it. Creating the output directory and writing
  into it are taken to succeed.
\<close>

definition main :: "lib \<Rightarrow> string \<Rightarrow> args \<Rightarrow> artifact list option \<Rightarrow> run" where
  "main L now a tree =
     (case tree of
        None \<Rightarrow>
          \<lparr>exit_code = 1, written = [],
           console = [''Error: Artifacts directory not found: '' @ utf8 (artifacts_dir a)]\<rparr>
      | Some entries \<Rightarrow>
          (let banner =
                 [''=== Performance Gates Analysis ==='',
                  ''Artifacts Directory: '' @ utf8 (artifacts_dir a),
                  ''Output Directory: '' @ utf8 (output_dir a),
                  []];
               (analysis, out1) = analyze_artifacts_directory L now (artifacts_dir a) entries;
               (files1, out2, returned) = generate_summary_report L analysis (output_dir a)
           in case returned of
                Inl e \<Rightarrow> \<lparr>exit_code = 1, written = files1, console = banner @ out1 @ out2\<rparr>
              | Inr summary_path \<Rightarrow>
                  (let (files2, out3) = generate_detailed_analysis L analysis (output_dir a);
                       counts =
                         [nl @ ''=== Analysis Summary ==='',
                          ''Total Gates: '' @ str_int (total_gates (summary analysis)),
                          ''Passed Gates: '' @ str_int (passed_gates (summary analysis)),
                          ''Failed Gates: '' @ str_int (failed_gates (summary analysis))];
                       rate =
                         (if 0 < total_gates (summary analysis)
                          then map_sum id (\<lambda>r. [''Success Rate: '' @ format_1f r @ ''%''])
                                 (success_rate (passed_gates (summary analysis))
                                               (total_gates (summary analysis)))
                          else Inr []);
                       sofar = banner @ out1 @ out2 @ out3 @ counts
                   in case rate of
                        Inl e \<Rightarrow> \<lparr>exit_code = 1, written = files1 @ files2, console = sofar\<rparr>
                      | Inr rate_line \<Rightarrow>
                          (let overall_status =
                                 (if run_overall_success (summary analysis)
                                  then ''PASSED'' else ''FAILED'');
                               out4 = sofar @ rate_line @
                                 [''Overall Status: '' @ overall_status,
                                  nl @ ''Detailed reports available in: '' @ utf8 (output_dir a)]
                           in if 0 < failed_gates (summary analysis) then
                                \<lparr>exit_code = 1, written = files1 @ files2,
                                 console = out4 @
                                   [nl @ cross_mark @
                                    '' Some performance gates failed - check the detailed reports'']\<rparr>
                              else
                                \<lparr>exit_code = 0, written = files1 @ files2,
                                 console = out4 @
                                   [nl @ check_mark @
                                    '' All performance gates passed successfully'']\<rparr>))))"

subsection \<open>Notions used in the properties\<close>

text \<open>
  The results of \<open>parse_log_file\<close> for the log files in the order the aggregator visits
  them, and the gate entries it folds in, in order.
\<close>

definition parsed_logs :: "artifact list \<Rightarrow> log_results list" where
  "parsed_logs tree = map (\<lambda>x. fst (parse_log_file (file_path x) (contents x))) (log_files tree)"

definition folded_entries :: "artifact list \<Rightarrow> (string \<times> bool) list" where
  "folded_entries tree = concat (map gates (parsed_logs tree))"

text \<open>
  The gate matches of one visited log file in text order (none when the file cannot be
  read), and those of all visits in processing order.
\<close>

fun gate_occurrences :: "file_read \<Rightarrow> (string \<times> bool) list" where
  "gate_occurrences (Reads content) = gate_matches content"
| "gate_occurrences f = []"

definition all_occurrences :: "artifact list \<Rightarrow> (string \<times> bool) list" where
  "all_occurrences tree = concat (map (\<lambda>x. gate_occurrences (contents x)) (log_files tree))"

abbreviation (input) upd :: "'k \<times> 'v \<Rightarrow> ('k \<times> 'v) list \<Rightarrow> ('k \<times> 'v) list" where
  "upd \<equiv> (\<lambda>(k, v). AList.update k v)"

text \<open>The consistency of the three counters.\<close>

definition counters_consistent :: "analysis \<Rightarrow> bool" where
  "counters_consistent a =
     (total_gates (summary a) = passed_gates (summary a) + failed_gates (summary a))"



subsection \<open>Example inputs\<close>







definition failed_then_passed_log :: string where
  "failed_then_passed_log =
     ''PERFORMANCE GATES FAILED'' @ nl @ ''ALL PERFORMANCE GATES PASSED'' @ nl"

definition passed_then_failed_log :: string where
  "passed_then_failed_log =
     ''ALL PERFORMANCE GATES PASSED'' @ nl @ ''PERFORMANCE GATES FAILED'' @ nl"

definition version_log :: string where
  "version_log = ''Build ID: b7'' @ nl @ ''[T] Gate 'fps': PASS'' @ nl @ ''version: 1.2.3'' @ nl"

text \<open>A library for the examples; none of them has a JSON or CSV report to decode.\<close>

definition example_lib :: lib where
  "example_lib =
     \<lparr>json_load = (\<lambda>t. Inl (ValueError ''Expecting value'')),
      json_dump = (\<lambda>a. ''{}''),
      column_stats = (\<lambda>xs. (''0.00'', ''0.00'', ''0.00''))\<rparr>"

definition repeated_gate_log :: string where
  "repeated_gate_log = ''[T] Gate 'X': PASS'' @ nl @ ''[T] Gate 'X': FAIL'' @ nl"

definition repeated_gate_tree :: "artifact list" where
  "repeated_gate_tree =
     [\<lparr>file_name = ''a.log'', file_path = ''artifacts/a.log'',
       contents = Reads repeated_gate_log\<rparr>]"

definition two_logs_tree :: "artifact list" where
  "two_logs_tree =
     [\<lparr>file_name = ''a.log'', file_path = ''artifacts/a.log'',
       contents = Reads repeated_gate_log\<rparr>,
      \<lparr>file_name = ''b.log'', file_path = ''artifacts/b.log'',
       contents = Reads (''ALL PERFORMANCE GATES PASSED'' @ nl @ ''[T] Gate 'X': PASS'' @ nl)\<rparr>]"

definition first_log_result :: log_results where
  "first_log_result =
     \<lparr>gates = [(''X'', False)], overall_success = False, execution_time = 0,
      build_id = ''unknown'', timestamp = None, metrics = Some []\<rparr>"

definition second_log_result :: log_results where
  "second_log_result =
     \<lparr>gates = [(''X'', True)], overall_success = True, execution_time = 0,
      build_id = ''unknown'', timestamp = None, metrics = Some []\<rparr>"

definition example_args :: args where
  "example_args =
     \<lparr>artifacts_dir = ''artifacts'', output_dir = ''performance-analysis'', verbose = False\<rparr>"

text \<open>An analysis with given counters and nothing else.\<close>

definition counts_analysis :: "int \<Rightarrow> int \<Rightarrow> int \<Rightarrow> analysis" where
  "counts_analysis t p f =
     \<lparr>summary = \<lparr>total_gates = t, passed_gates = p, failed_gates = f,
                 run_overall_success = False, analysis_timestamp = ''2024-01-01T00:00:00''\<rparr>,
      all_gates = [], performance_data = [], reports = []\<rparr>"

text \<open>The table with columns \<open>a\<close>, \<open>b\<close> and two rows, as \<open>csv.writer\<close> writes it.\<close>

definition written_table :: string where
  "written_table = writerow [''a'', ''b''] @ writerow [''1'', ''x''] @ writerow [''2.5'', ''y'']"

definition crlf :: string where
  "crlf = [CHR 0x0D, CHR 0x0A]"

text \<open>The log of the end-to-end scenario, its extraction and the expected gate table.\<close>

definition e2e_log :: string where
  "e2e_log =
     ''Build ID: b123'' @ nl @ ''ALL PERFORMANCE GATES PASSED'' @ nl @
     ''[X] Gate 'latency': PASS'' @ nl @ ''[X] Gate 'memory': FAIL'' @ nl @
     ''throughput: 42.5'' @ nl"

definition e2e_result :: log_results where
  "e2e_result =
     \<lparr>gates = [(''latency'', True), (''memory'', False)], overall_success = True,
      execution_time = 0, build_id = ''b123'', timestamp = None,
      metrics = Some [(''throughput'', Fin False (85 / 2))]\<rparr>"

definition e2e_csv :: string where
  "e2e_csv = ''Gate Name,Status,Success'' @ crlf @ ''latency,PASS,True'' @ crlf @
             ''memory,FAIL,False'' @ crlf"

section \<open>Properties\<close>

subsection \<open>The aggregate depends on the log results only through \<open>merge_log\<close>\<close>

lemma fold_visit_log:
  "fst (fold visit_log xs (a, out)) =
   fold merge_log (map (\<lambda>x. fst (parse_log_file (file_path x) (contents x))) xs) a"
  by (induction xs arbitrary: a out) (simp_all add: visit_log_def split_beta Let_def)

lemma visit_csv_keeps:
  "summary (fst (fold visit_csv xs s)) = summary (fst s) \<and>
   all_gates (fst (fold visit_csv xs s)) = all_gates (fst s)"
  by (induction xs arbitrary: s) (simp_all add: visit_csv_def split_beta Let_def)

lemma visit_json_keeps:
  "summary (fst (fold (visit_json L) xs s)) = summary (fst s) \<and>
   all_gates (fst (fold (visit_json L) xs s)) = all_gates (fst s)"
  by (induction xs arbitrary: s) (simp_all add: visit_json_def split_beta Let_def)

lemma analyze_summary:
  "summary (fst (analyze_artifacts_directory L now d tree)) =
   summary (fold merge_log (parsed_logs tree) (new_analysis now))"
  by (simp add: analyze_artifacts_directory_def visit_json_keeps visit_csv_keeps
      fold_visit_log parsed_logs_def)

lemma analyze_all_gates:
  "all_gates (fst (analyze_artifacts_directory L now d tree)) =
   all_gates (fold merge_log (parsed_logs tree) (new_analysis now))"
  by (simp add: analyze_artifacts_directory_def visit_json_keeps visit_csv_keeps
      fold_visit_log parsed_logs_def)

subsection \<open>The overall verdict of one log\<close>

lemma parse_log_overall:
  "overall_success (fst (parse_log_file log_path (Reads content))) =
   py_in ''ALL PERFORMANCE GATES PASSED'' content"
  by (simp add: parse_log_file_def Let_def split: option.split list.split sum.split)

text \<open>
  Claim C1 says that a log text with both markers yields \<open>overall_success = False\<close>,
  whatever their order. The source tests the all-passed marker first and the failed
  marker only in the \<open>elif\<close>: on the text below, which holds both markers, the result is
  \<open>True\<close>.
\<close>

theorem both_markers_counterexample:
  "py_in ''ALL PERFORMANCE GATES PASSED'' failed_then_passed_log \<and>
   py_in ''PERFORMANCE GATES FAILED'' failed_then_passed_log \<and>
   \<not> (overall_success (fst (parse_log_file ''build.log'' (Reads failed_then_passed_log))) = False)"
  by code_simp

text \<open>
  Claim C1, amended: for every log text that contains both markers, \<open>parse_log_file\<close>
  returns \<open>overall_success = True\<close>, in either order of the markers (the all-passed
  marker takes precedence).
\<close>

theorem passed_marker_takes_precedence:
  assumes "py_in ''ALL PERFORMANCE GATES PASSED'' content"
    and "py_in ''PERFORMANCE GATES FAILED'' content"
  shows "overall_success (fst (parse_log_file log_path (Reads content))) = True"
  using assms by (simp add: parse_log_overall)

theorem passed_marker_takes_precedence_witness:
  "py_in ''ALL PERFORMANCE GATES PASSED'' passed_then_failed_log \<and>
   py_in ''PERFORMANCE GATES FAILED'' passed_then_failed_log \<and>
   overall_success (fst (parse_log_file ''build.log'' (Reads passed_then_failed_log))) = True"
proof -
  have a: "py_in ''ALL PERFORMANCE GATES PASSED'' passed_then_failed_log" by code_simp
  have b: "py_in ''PERFORMANCE GATES FAILED'' passed_then_failed_log" by code_simp
  from passed_marker_takes_precedence [OF a b, of "''build.log''"] a b show ?thesis by simp
qed

subsection \<open>The run-wide verdict\<close>

lemma merge_gate_success:
  "run_overall_success (summary (fold merge_gate gs a)) = run_overall_success (summary a)"
  by (induction gs arbitrary: a) (simp_all add: merge_gate_def split_beta Let_def)

lemma merge_log_success:
  "run_overall_success (summary (merge_log r a)) =
   (overall_success r \<or> run_overall_success (summary a))"
  by (simp add: merge_log_def Let_def merge_gate_success)

lemma fold_merge_log_success:
  "run_overall_success (summary (fold merge_log rs a)) =
   ((\<exists>r \<in> set rs. overall_success r) \<or> run_overall_success (summary a))"
  by (induction rs arbitrary: a) (auto simp: merge_log_success)

text \<open>
  Claim C6: the aggregate's overall-success flag is true exactly when the result of at
  least one parsed log file has \<open>overall_success\<close> true; with no log file it is false.
\<close>

theorem overall_success_is_any:
  "run_overall_success (summary (fst (analyze_artifacts_directory L now d tree))) =
   (\<exists>r \<in> set (parsed_logs tree). overall_success r)"
  by (simp add: analyze_summary fold_merge_log_success new_analysis_def)

theorem overall_success_is_any_witness:
  "map overall_success (parsed_logs two_logs_tree) = [False, True] \<and>
   run_overall_success (summary (fst (analyze_artifacts_directory example_lib ''t'' ''artifacts''
      two_logs_tree))) = True"
proof -
  have p: "parsed_logs two_logs_tree = [first_log_result, second_log_result]" by code_simp
  from overall_success_is_any [of example_lib "''t''" "''artifacts''" two_logs_tree]
  show ?thesis by (simp add: p first_log_result_def second_log_result_def)
qed

subsection \<open>The counters\<close>

lemma merge_gate_consistent:
  "counters_consistent a \<Longrightarrow> counters_consistent (merge_gate g a)"
  by (cases g) (simp add: counters_consistent_def merge_gate_def Let_def)

lemma fold_merge_gate_consistent:
  "counters_consistent a \<Longrightarrow> counters_consistent (fold merge_gate gs a)"
  by (induction gs arbitrary: a) (simp_all add: merge_gate_consistent)

lemma merge_log_consistent:
  "counters_consistent a \<Longrightarrow> counters_consistent (merge_log r a)"
  using fold_merge_gate_consistent [of a "gates r"]
  by (simp add: merge_log_def Let_def counters_consistent_def)

lemma fold_merge_log_consistent:
  "counters_consistent a \<Longrightarrow> counters_consistent (fold merge_log rs a)"
  by (induction rs arbitrary: a) (simp_all add: merge_log_consistent)

lemma new_analysis_consistent: "counters_consistent (new_analysis now)"
  by (simp add: counters_consistent_def new_analysis_def)

text \<open>
  Claim C9: the total count equals the passed plus the failed count in the final
  analysis and after every gate entry folded in on the way (after the visits
  \<open>before\<close>, in the middle of the entries of the visit \<open>r\<close>).
\<close>

theorem counters_stay_consistent:
  "counters_consistent (fst (analyze_artifacts_directory L now d tree)) \<and>
   (\<forall>before r after folded rest.
      parsed_logs tree = before @ r # after \<and> gates r = folded @ rest \<longrightarrow>
      counters_consistent
        (fold merge_gate folded (fold merge_log before (new_analysis now))))"
  using fold_merge_log_consistent [OF new_analysis_consistent]
  by (simp add: counters_consistent_def [of "fst _"] analyze_summary
      fold_merge_gate_consistent) (simp add: counters_consistent_def)

theorem counters_stay_consistent_witness:
  "parsed_logs two_logs_tree = [] @ first_log_result # [second_log_result] \<and>
   gates first_log_result = [(''X'', False)] @ [] \<and>
   counters_consistent (fst (analyze_artifacts_directory example_lib ''t'' ''artifacts''
      two_logs_tree)) \<and>
   counters_consistent
     (fold merge_gate [(''X'', False)] (fold merge_log [] (new_analysis ''t'')))"
proof -
  have p: "parsed_logs two_logs_tree = [] @ first_log_result # [second_log_result]"
    by code_simp
  have g: "gates first_log_result = [(''X'', False)] @ []"
    by (simp add: first_log_result_def)
  from counters_stay_consistent [of example_lib "''t''" "''artifacts''" two_logs_tree]
  have c: "counters_consistent (fst (analyze_artifacts_directory example_lib ''t''
      ''artifacts'' two_logs_tree))"
    and a: "\<forall>before r after folded rest.
      parsed_logs two_logs_tree = before @ r # after \<and> gates r = folded @ rest \<longrightarrow>
      counters_consistent
        (fold merge_gate folded (fold merge_log before (new_analysis ''t'')))"
    by blast+
  from a p g have "counters_consistent
     (fold merge_gate [(''X'', False)] (fold merge_log [] (new_analysis ''t'')))"
    by blast
  with p g c show ?thesis by blast
qed

subsection \<open>Repeated gate names\<close>

lemma gates_parse:
  "gates (fst (parse_log_file p f)) = fold upd (gate_occurrences f) []"
  by (cases f) (simp_all add: parse_log_file_def Let_def split: option.split list.split sum.split)

lemma map_of_fold_update:
  "map_of (fold upd xs d) = map_of d ++ map_of (rev xs)"
proof (induction xs arbitrary: d)
  case Nil then show ?case by simp
next
  case (Cons x xs)
  obtain k v where x: "x = (k, v)" by (cases x)
  have "map_of (fold upd (x # xs) d) = map_of (AList.update k v d) ++ map_of (rev xs)"
    by (simp add: x Cons)
  also have "\<dots> = (map_of d ++ [k \<mapsto> v]) ++ map_of (rev xs)"
    by (simp only: update_conv' map_add_upd map_add_empty)
  also have "\<dots> = map_of d ++ map_of (rev (x # xs))"
    by (simp only: x rev.simps map_of_append map_add_assoc map_of.simps fst_conv snd_conv)
  finally show ?case .
qed

lemma distinct_fold_update:
  "distinct (map fst d) \<Longrightarrow> distinct (map fst (fold upd xs d))"
  by (induction xs arbitrary: d) (auto simp: distinct_update)

lemma keys_update: "fst ` set (AList.update k v d) = insert k (fst ` set d)"
  by (induction d) auto

lemma keys_fold_update:
  "fst ` set (fold upd xs d) = fst ` set d \<union> fst ` set xs"
proof (induction xs arbitrary: d)
  case Nil then show ?case by simp
next
  case (Cons x xs)
  obtain k v where x: "x = (k, v)" by (cases x)
  have "fst ` set (fold upd (x # xs) d) = fst ` set (AList.update k v d) \<union> fst ` set xs"
    by (simp add: x Cons)
  also have "\<dots> = insert k (fst ` set d) \<union> fst ` set xs"
    by (simp only: keys_update)
  also have "\<dots> = fst ` set d \<union> fst ` set (x # xs)"
    by (simp add: x)
  finally show ?case .
qed

lemma count_key_distinct:
  "distinct (map fst d) \<Longrightarrow>
   length (filter (\<lambda>e. fst e = X) d) = (if X \<in> fst ` set d then 1 else 0)"
  by (induction d) (auto simp: image_iff)

lemma fold_merge_gate_gates:
  "all_gates (fold merge_gate gs a) = fold upd gs (all_gates a)"
  by (induction gs arbitrary: a) (simp_all add: merge_gate_def split_beta Let_def)

lemma fold_merge_gate_total:
  "total_gates (summary (fold merge_gate gs a)) = total_gates (summary a) + int (length gs)"
  by (induction gs arbitrary: a) (simp_all add: merge_gate_def split_beta Let_def)

lemma merge_log_gates: "all_gates (merge_log r a) = fold upd (gates r) (all_gates a)"
  by (simp add: merge_log_def Let_def fold_merge_gate_gates)

lemma merge_log_total:
  "total_gates (summary (merge_log r a)) = total_gates (summary a) + int (length (gates r))"
  by (simp add: merge_log_def Let_def fold_merge_gate_total)

lemma fold_merge_log_gates:
  "all_gates (fold merge_log rs a) = fold upd (concat (map gates rs)) (all_gates a)"
  by (induction rs arbitrary: a) (simp_all add: merge_log_gates)

lemma fold_merge_log_total:
  "total_gates (summary (fold merge_log rs a)) =
   total_gates (summary a) + int (length (concat (map gates rs)))"
  by (induction rs arbitrary: a) (simp_all add: merge_log_total)

lemma map_of_rev_last:
  "X \<in> fst ` set xs \<Longrightarrow>
   map_of (rev xs) X = Some (snd (last (filter (\<lambda>e. fst e = X) xs)))"
  by (induction xs rule: rev_induct) (auto simp: image_iff)

lemma map_of_rev_distinct:
  "distinct (map fst d) \<Longrightarrow> map_of (rev d) = map_of d"
  by (rule ext) (metis distinct_rev map_of_eq_Some_iff map_of_eq_None_iff rev_map set_rev option.exhaust)


lemma gates_parse_distinct: "distinct (map fst (gates (fst (parse_log_file p f))))"
  by (simp add: gates_parse distinct_fold_update)

lemma gates_parse_keys:
  "fst ` set (gates (fst (parse_log_file p f))) = fst ` set (gate_occurrences f)"
  by (simp add: gates_parse keys_fold_update)

lemma gates_parse_map: "map_of (gates (fst (parse_log_file p f))) = map_of (rev (gate_occurrences f))"
  by (simp add: gates_parse map_of_fold_update)

lemma entries_per_file:
  "length (filter (\<lambda>e. fst e = X)
     (concat (map (\<lambda>x. gates (fst (parse_log_file (file_path x) (contents x)))) xs))) =
   length (filter (\<lambda>x. X \<in> fst ` set (gate_occurrences (contents x))) xs)"
  by (induction xs) (simp_all add: count_key_distinct gates_parse_distinct gates_parse_keys)

lemma map_of_rev_concat:
  "map_of (rev (concat (map (\<lambda>x. gates (fst (parse_log_file (file_path x) (contents x)))) xs))) =
   map_of (rev (concat (map (\<lambda>x. gate_occurrences (contents x)) xs)))"
  by (induction xs)
    (simp_all add: map_of_append map_of_rev_distinct gates_parse_distinct gates_parse_map)

text \<open>
  Claim C2 says that \<open>N\<close> passing and \<open>M\<close> failing occurrences of a gate name, possibly
  within one file, increment the total count by \<open>N + M\<close>. A log with one passing and one
  failing occurrence of \<open>X\<close> yields one dictionary entry, and the total is 1.
\<close>

theorem repeated_gate_counterexample:
  "length (filter (\<lambda>e. e = (''X'', True)) (all_occurrences repeated_gate_tree)) = 1 \<and>
   length (filter (\<lambda>e. e = (''X'', False)) (all_occurrences repeated_gate_tree)) = 1 \<and>
   total_gates (summary (fst (analyze_artifacts_directory example_lib ''t'' ''artifacts''
      repeated_gate_tree))) \<noteq> 1 + 1"
  by code_simp

text \<open>
  Claim C2, amended: the total count is the number of gate entries folded in; the entries
  for a name \<open>X\<close> are one per visit of a log file in which \<open>X\<close> occurs (occurrences
  within one file count once); and the value stored for \<open>X\<close> is the verdict of the last
  occurrence processed.
\<close>

theorem repeated_gate_counts_once_per_file:
  "total_gates (summary (fst (analyze_artifacts_directory L now d tree))) =
     int (length (folded_entries tree)) \<and>
   length (filter (\<lambda>e. fst e = X) (folded_entries tree)) =
     length (filter (\<lambda>x. X \<in> fst ` set (gate_occurrences (contents x))) (log_files tree)) \<and>
   (X \<in> fst ` set (all_occurrences tree) \<longrightarrow>
      map_of (all_gates (fst (analyze_artifacts_directory L now d tree))) X =
      Some (snd (last (filter (\<lambda>e. fst e = X) (all_occurrences tree)))))"
proof (intro conjI impI)
  show "total_gates (summary (fst (analyze_artifacts_directory L now d tree))) =
     int (length (folded_entries tree))"
    by (simp add: analyze_summary fold_merge_log_total folded_entries_def new_analysis_def)
  show "length (filter (\<lambda>e. fst e = X) (folded_entries tree)) =
     length (filter (\<lambda>x. X \<in> fst ` set (gate_occurrences (contents x))) (log_files tree))"
    by (simp add: folded_entries_def parsed_logs_def entries_per_file comp_def)
  assume X: "X \<in> fst ` set (all_occurrences tree)"
  have "map_of (all_gates (fst (analyze_artifacts_directory L now d tree))) =
        map_of (rev (folded_entries tree))"
    by (simp add: analyze_all_gates fold_merge_log_gates map_of_fold_update
        folded_entries_def new_analysis_def)
  also have "\<dots> = map_of (rev (all_occurrences tree))"
    by (simp add: folded_entries_def parsed_logs_def all_occurrences_def map_of_rev_concat comp_def)
  finally show "map_of (all_gates (fst (analyze_artifacts_directory L now d tree))) X =
      Some (snd (last (filter (\<lambda>e. fst e = X) (all_occurrences tree))))"
    by (simp add: map_of_rev_last [OF X])
qed

theorem repeated_gate_counts_once_per_file_witness:
  "''X'' \<in> fst ` set (all_occurrences two_logs_tree) \<and>
   all_occurrences two_logs_tree = [(''X'', True), (''X'', False), (''X'', True)] \<and>
   length (filter (\<lambda>x. ''X'' \<in> fst ` set (gate_occurrences (contents x))) (log_files two_logs_tree)) = 2 \<and>
   total_gates (summary (fst (analyze_artifacts_directory example_lib ''t'' ''artifacts''
      two_logs_tree))) = 2 \<and>
   map_of (all_gates (fst (analyze_artifacts_directory example_lib ''t'' ''artifacts''
      two_logs_tree))) ''X'' = Some True"
proof -
  have o: "all_occurrences two_logs_tree = [(''X'', True), (''X'', False), (''X'', True)]"
    by code_simp
  have n: "length (filter (\<lambda>x. ''X'' \<in> fst ` set (gate_occurrences (contents x)))
      (log_files two_logs_tree)) = 2"
    by code_simp
  have f: "folded_entries two_logs_tree = [(''X'', False), (''X'', True)]"
    by code_simp
  from repeated_gate_counts_once_per_file
    [of example_lib "''t''" "''artifacts''" two_logs_tree "''X''"]
  show ?thesis by (simp add: o n f)
qed

subsection \<open>The entry point\<close>

lemma merge_gate_nonneg:
  "0 \<le> passed_gates (summary a) \<and> 0 \<le> failed_gates (summary a) \<Longrightarrow>
   0 \<le> passed_gates (summary (merge_gate g a)) \<and> 0 \<le> failed_gates (summary (merge_gate g a))"
  by (cases g) (simp add: merge_gate_def Let_def)

lemma fold_merge_gate_nonneg:
  "0 \<le> passed_gates (summary a) \<and> 0 \<le> failed_gates (summary a) \<Longrightarrow>
   0 \<le> passed_gates (summary (fold merge_gate gs a)) \<and>
   0 \<le> failed_gates (summary (fold merge_gate gs a))"
  by (induction gs arbitrary: a) (simp_all add: merge_gate_nonneg)

lemma merge_log_nonneg:
  "0 \<le> passed_gates (summary a) \<and> 0 \<le> failed_gates (summary a) \<Longrightarrow>
   0 \<le> passed_gates (summary (merge_log r a)) \<and> 0 \<le> failed_gates (summary (merge_log r a))"
  using fold_merge_gate_nonneg [of a "gates r"] by (simp add: merge_log_def Let_def)

lemma fold_merge_log_nonneg:
  "0 \<le> passed_gates (summary a) \<and> 0 \<le> failed_gates (summary a) \<Longrightarrow>
   0 \<le> passed_gates (summary (fold merge_log rs a)) \<and>
   0 \<le> failed_gates (summary (fold merge_log rs a))"
  by (induction rs arbitrary: a) (simp_all add: merge_log_nonneg)

lemma analyze_counters:
  "0 \<le> passed_gates (summary (fst (analyze_artifacts_directory L now d tree))) \<and>
   0 \<le> failed_gates (summary (fst (analyze_artifacts_directory L now d tree))) \<and>
   total_gates (summary (fst (analyze_artifacts_directory L now d tree))) =
     passed_gates (summary (fst (analyze_artifacts_directory L now d tree))) +
     failed_gates (summary (fst (analyze_artifacts_directory L now d tree)))"
  using fold_merge_log_nonneg [of "new_analysis now" "parsed_logs tree"]
    fold_merge_log_consistent [OF new_analysis_consistent, of "parsed_logs tree" now]
  by (simp add: analyze_summary counters_consistent_def) (simp add: new_analysis_def)

lemma b64_overflow_gt_1: "1 < b64_overflow"
  by (simp add: b64_overflow_def)

lemma success_rate_defined:
  assumes "0 \<le> p" "p \<le> t" "0 < t"
  shows "\<exists>r. success_rate p t = Inr r"
proof -
  have "\<bar>rat_of_int p / rat_of_int t\<bar> \<le> 1" using assms by simp
  with b64_overflow_gt_1 have "\<not> b64_overflow \<le> \<bar>rat_of_int p / rat_of_int t\<bar>" by linarith
  with assms show ?thesis by (simp add: success_rate_def int_truediv_def Let_def)
qed

lemma analyze_rate:
  "0 < total_gates (summary (fst (analyze_artifacts_directory L now d tree))) \<Longrightarrow>
   \<exists>r. success_rate (passed_gates (summary (fst (analyze_artifacts_directory L now d tree))))
          (total_gates (summary (fst (analyze_artifacts_directory L now d tree)))) = Inr r"
  using analyze_counters [of L now d tree] by (intro success_rate_defined) simp_all

lemma summary_writes_ok:
  "snd (summary_writes L (fst (analyze_artifacts_directory L now d tree))) = None"
proof (cases "0 < total_gates (summary (fst (analyze_artifacts_directory L now d tree)))")
  case True
  from analyze_rate [OF True] obtain x where
    "success_rate (passed_gates (summary (fst (analyze_artifacts_directory L now d tree))))
       (total_gates (summary (fst (analyze_artifacts_directory L now d tree)))) = Inr x" by blast
  then show ?thesis
    by (simp add: summary_writes_def statistics_block_def Let_def True del: format_1f.simps)
next
  case False
  then show ?thesis by (simp add: summary_writes_def statistics_block_def Let_def)
qed

lemma generate_summary_report_ok:
  "snd (summary_writes L A) = None \<Longrightarrow>
   generate_summary_report L A od =
     ([(path_join od ''performance-analysis-summary.md'', concat (fst (summary_writes L A)))],
      [''Summary report generated: '' @ utf8 (path_join od ''performance-analysis-summary.md'')],
      Inr (path_join od ''performance-analysis-summary.md''))"
  by (simp add: generate_summary_report_def Let_def split_beta)

lemma main_some:
  "exit_code (main L now a (Some entries)) =
     (if 0 < failed_gates (summary (fst (analyze_artifacts_directory L now (artifacts_dir a) entries)))
      then 1 else 0) \<and>
   written (main L now a (Some entries)) =
     (path_join (output_dir a) ''performance-analysis-summary.md'',
      concat (fst (summary_writes L (fst (analyze_artifacts_directory L now (artifacts_dir a) entries))))) #
     fst (generate_detailed_analysis L
            (fst (analyze_artifacts_directory L now (artifacts_dir a) entries)) (output_dir a))"
proof -
  let ?A = "fst (analyze_artifacts_directory L now (artifacts_dir a) entries)"
  note g = generate_summary_report_ok [OF summary_writes_ok, of L now "artifacts_dir a" entries]
  show ?thesis
  proof (cases "0 < total_gates (summary ?A)")
    case True
    from analyze_rate [OF True] obtain x where
      x: "success_rate (passed_gates (summary ?A)) (total_gates (summary ?A)) = Inr x" by blast
    show ?thesis
      by (simp add: main_def g Let_def split_beta True x del: format_1f.simps)
  next
    case False
    then show ?thesis
      by (simp add: main_def g Let_def split_beta)
  qed
qed

text \<open>
  Claim C4: the run exits with status 0 exactly when the artifacts directory exists and
  the aggregated failed-gate count is zero (which includes no gate at all); it exits with
  status 1 when the directory does not exist, having written no file, and when a failed
  gate was recorded.
\<close>

theorem main_exit_code:
  "(exit_code (main L now a tree) = 0 \<longleftrightarrow>
      (\<exists>entries. tree = Some entries \<and>
         failed_gates (summary (fst (analyze_artifacts_directory L now (artifacts_dir a) entries))) = 0)) \<and>
   (tree = None \<longrightarrow> exit_code (main L now a tree) = 1 \<and> written (main L now a tree) = []) \<and>
   (\<forall>entries. tree = Some entries \<and>
        0 < failed_gates (summary (fst (analyze_artifacts_directory L now (artifacts_dir a) entries)))
      \<longrightarrow> exit_code (main L now a tree) = 1)"
proof (cases tree)
  case None
  then show ?thesis by (simp add: main_def)
next
  case (Some entries)
  from analyze_counters [of L now "artifacts_dir a" entries]
  have "0 \<le> failed_gates (summary (fst (analyze_artifacts_directory L now (artifacts_dir a) entries)))"
    by simp
  then show ?thesis by (auto simp: Some main_some)
qed

theorem main_exit_code_witness:
  "exit_code (main example_lib ''t'' example_args None) = 1 \<and>
   written (main example_lib ''t'' example_args None) = [] \<and>
   exit_code (main example_lib ''t'' example_args (Some [])) = 0 \<and>
   exit_code (main example_lib ''t'' example_args (Some repeated_gate_tree)) = 1"
proof -
  have f0: "failed_gates (summary (fst (analyze_artifacts_directory example_lib ''t''
      (artifacts_dir example_args) []))) = 0"
    by code_simp
  have f1: "failed_gates (summary (fst (analyze_artifacts_directory example_lib ''t''
      (artifacts_dir example_args) repeated_gate_tree))) = 1"
    by code_simp
  from main_exit_code [of example_lib "''t''" example_args None]
    main_exit_code [of example_lib "''t''" example_args "Some []"]
    main_exit_code [of example_lib "''t''" example_args "Some repeated_gate_tree"]
  show ?thesis by (simp add: f0 f1)
qed

subsection \<open>The success rate in the summary\<close>

lemma rate_3_4: "success_rate 3 4 = Inr (Fin False 75)"
  by code_simp

lemma format_75: "format_1f (Fin False 75) = ''75.0''"
  by code_simp

lemma str_int_small: "str_int 4 = ''4''" "str_int 3 = ''3''" "str_int 1 = ''1''" "str_int 0 = ''0''"
  by code_simp+

text \<open>
  Claim C7: with 4 gates of which 3 passed, the summary has the line
  \<open>- **Success Rate**: 75.0%\<close> after the three counts; with 0 gates the counts are
  followed by the empty line at once, no division is made and nothing is raised.
\<close>

theorem success_rate_line:
  "(total_gates (summary a) = 4 \<and> passed_gates (summary a) = 3 \<longrightarrow>
      summary_writes L a =
        (title_block a @ status_block a @
         [''## Summary Statistics'' @ nl @ nl,
          ''- **Total Gates**: 4'' @ nl,
          ''- **Passed Gates**: 3'' @ nl,
          ''- **Failed Gates**: '' @ str_int (failed_gates (summary a)) @ nl,
          ''- **Success Rate**: 75.0%'' @ nl,
          nl] @
         gates_block a @ performance_block L a @ reports_block a @ recommendations_block a,
         None)) \<and>
   (total_gates (summary a) = 0 \<longrightarrow>
      summary_writes L a =
        (title_block a @ status_block a @
         [''## Summary Statistics'' @ nl @ nl,
          ''- **Total Gates**: 0'' @ nl,
          ''- **Passed Gates**: '' @ str_int (passed_gates (summary a)) @ nl,
          ''- **Failed Gates**: '' @ str_int (failed_gates (summary a)) @ nl,
          nl] @
         gates_block a @ performance_block L a @ reports_block a @ recommendations_block a,
         None))"
  by (simp add: summary_writes_def statistics_block_def Let_def rate_3_4 format_75 str_int_small
      del: format_1f.simps)

theorem success_rate_line_witness:
  "summary_writes example_lib (counts_analysis 4 3 1) =
     (title_block (counts_analysis 4 3 1) @ status_block (counts_analysis 4 3 1) @
      [''## Summary Statistics'' @ nl @ nl,
       ''- **Total Gates**: 4'' @ nl,
       ''- **Passed Gates**: 3'' @ nl,
       ''- **Failed Gates**: 1'' @ nl,
       ''- **Success Rate**: 75.0%'' @ nl,
       nl] @
      recommendations_block (counts_analysis 4 3 1), None) \<and>
   summary_writes example_lib (counts_analysis 0 0 0) =
     (title_block (counts_analysis 0 0 0) @ status_block (counts_analysis 0 0 0) @
      [''## Summary Statistics'' @ nl @ nl,
       ''- **Total Gates**: 0'' @ nl,
       ''- **Passed Gates**: 0'' @ nl,
       ''- **Failed Gates**: 0'' @ nl,
       nl] @
      recommendations_block (counts_analysis 0 0 0), None)"
proof -
  have b: "gates_block (counts_analysis t p f) = []"
    "performance_block example_lib (counts_analysis t p f) = []"
    "reports_block (counts_analysis t p f) = []" for t p f
    by (simp_all add: gates_block_def performance_block_def reports_block_def counts_analysis_def)
  have c: "total_gates (summary (counts_analysis t p f)) = t"
    "passed_gates (summary (counts_analysis t p f)) = p"
    "failed_gates (summary (counts_analysis t p f)) = f" for t p f
    by (simp_all add: counts_analysis_def)
  from success_rate_line [of "counts_analysis 4 3 1" example_lib]
    success_rate_line [of "counts_analysis 0 0 0" example_lib]
  show ?thesis by (simp add: b c str_int_small)
qed

subsection \<open>Reading back a written table\<close>

text \<open>
  Claim C8: for the table with header \<open>a\<close>, \<open>b\<close> and the rows \<open>(1, x)\<close> and
  \<open>(2.5, y)\<close>, the reader yields the two rows in file order, the cells of column \<open>a\<close>
  as the numbers \<open>1.0\<close> and \<open>2.5\<close>, the cells of column \<open>b\<close> as the unchanged strings.
\<close>

theorem csv_round_trip:
  "parse_csv_report csv_path (Reads written_table) =
     ([[(Some ''a'', Num (Fin False 1)), (Some ''b'', Str ''x'')],
       [(Some ''a'', Num (Fin False (5 / 2))), (Some ''b'', Str ''y'')]], [])"
  by code_simp

theorem csv_round_trip_witness:
  "written_table = ''a,b'' @ crlf @ ''1,x'' @ crlf @ ''2.5,y'' @ crlf \<and>
   float_of_str ''x'' = None \<and>
   parse_csv_report ''report.csv'' (Reads written_table) =
     ([[(Some ''a'', Num (Fin False 1)), (Some ''b'', Str ''x'')],
       [(Some ''a'', Num (Fin False (5 / 2))), (Some ''b'', Str ''y'')]], [])"
proof -
  have t: "written_table = ''a,b'' @ crlf @ ''1,x'' @ crlf @ ''2.5,y'' @ crlf" by code_simp
  have x: "float_of_str ''x'' = None" by code_simp
  from csv_round_trip [of "''report.csv''"] t x show ?thesis by blast
qed

subsection \<open>The end-to-end scenario\<close>

lemma summary_text_start:
  "\<exists>rest. concat (fst (summary_writes L a)) =
     ''# Performance Gates Analysis Summary'' @ nl @ nl @
     ''**Analysis Timestamp**: '' @ utf8 (analysis_timestamp (summary a)) @ nl @ nl @
     ''## Overall Status: '' @
     (if run_overall_success (summary a) then check_mark @ '' PASSED'' else cross_mark @ '' FAILED'') @
     nl @ nl @ rest"
proof -
  have "\<exists>ws. fst (summary_writes L a) = title_block a @ status_block a @ ws"
    by (auto simp: summary_writes_def Let_def split_beta split: option.split)
  then obtain ws where "fst (summary_writes L a) = title_block a @ status_block a @ ws" ..
  then show ?thesis
    by (simp add: title_block_def status_block_def Let_def)
qed

lemma e2e_parse: "parse_log_file p (Reads e2e_log) = (e2e_result, [])"
  by code_simp

lemma log_not_csv: "ends_with n ''.log'' \<Longrightarrow> \<not> ends_with n ''.csv''"
  by (cases "rev n") (simp_all add: ends_with_def)

lemma log_not_json: "ends_with n ''.log'' \<Longrightarrow> \<not> ends_with n ''.json''"
  by (cases "rev n") (simp_all add: ends_with_def)

lemma e2e_merge_once:
  "merge_log e2e_result (new_analysis now) =
     \<lparr>summary = \<lparr>total_gates = 2, passed_gates = 1, failed_gates = 1,
                 run_overall_success = True, analysis_timestamp = now\<rparr>,
      all_gates = [(''latency'', True), (''memory'', False)],
      performance_data = [], reports = []\<rparr>"
  by (simp add: merge_log_def merge_gate_def e2e_result_def new_analysis_def Let_def)

lemma e2e_merge_again:
  "merge_log e2e_result
     \<lparr>summary = \<lparr>total_gates = 2, passed_gates = 1, failed_gates = 1,
                 run_overall_success = True, analysis_timestamp = now\<rparr>,
      all_gates = [(''latency'', True), (''memory'', False)],
      performance_data = [], reports = []\<rparr> =
     \<lparr>summary = \<lparr>total_gates = 4, passed_gates = 2, failed_gates = 2,
                 run_overall_success = True, analysis_timestamp = now\<rparr>,
      all_gates = [(''latency'', True), (''memory'', False)],
      performance_data = [], reports = []\<rparr>"
  by (simp add: merge_log_def merge_gate_def e2e_result_def Let_def)

lemma e2e_analysis:
  assumes "ends_with n ''.log''"
  shows "fst (analyze_artifacts_directory L now d
            [\<lparr>file_name = n, file_path = p, contents = Reads e2e_log\<rparr>]) =
         (if n = ''performance-gates.log''
          then merge_log e2e_result (merge_log e2e_result (new_analysis now))
          else merge_log e2e_result (new_analysis now))"
  using assms log_not_csv [OF assms] log_not_json [OF assms]
  by (simp add: analyze_artifacts_directory_def log_files_def csv_files_def json_files_def
      visit_log_def e2e_parse)

lemma rate_half: "success_rate 1 2 = Inr (Fin False 50)" "success_rate 2 4 = Inr (Fin False 50)"
  by code_simp+

lemma e2e_csv_text:
  "utf8 (writerow [''Gate Name'', ''Status'', ''Success''] @
         writerow [''latency'', ''PASS'', str_bool True] @
         writerow [''memory'', ''FAIL'', str_bool False]) = e2e_csv"
  by code_simp

lemma path_join_neq:
  "path_join d ''performance-analysis-summary.md'' \<noteq> path_join d ''gate-results.csv''"
  "path_join d ''full-analysis.json'' \<noteq> path_join d ''gate-results.csv''"
  "path_join d ''full-analysis.json'' \<noteq> path_join d ''performance-analysis-summary.md''"
  by (simp_all add: path_join_def)


text \<open>
  Claim C3: for an artifacts directory whose only entry is a log file with the text of
  the scenario (under any name ending in \<open>.log\<close>), the run exits with status 1, writes
  the summary, the full analysis and the gate table, the gate table holds the header and
  exactly the rows \<open>latency,PASS,True\<close> and \<open>memory,FAIL,False\<close>, and the summary's
  overall status line reads PASSED.
\<close>

theorem end_to_end:
  assumes "ends_with n ''.log''"
  shows "let r = main L now a (Some [\<lparr>file_name = n, file_path = p, contents = Reads e2e_log\<rparr>])
         in exit_code r = 1 \<and>
            map fst (written r) =
              [path_join (output_dir a) ''performance-analysis-summary.md'',
               path_join (output_dir a) ''full-analysis.json'',
               path_join (output_dir a) ''gate-results.csv''] \<and>
            map_of (written r) (path_join (output_dir a) ''gate-results.csv'') = Some e2e_csv \<and>
            (\<exists>rest. map_of (written r) (path_join (output_dir a) ''performance-analysis-summary.md'') =
               Some (''# Performance Gates Analysis Summary'' @ nl @ nl @
                     ''**Analysis Timestamp**: '' @ utf8 now @ nl @ nl @
                     ''## Overall Status: '' @ check_mark @ '' PASSED'' @ nl @ nl @ rest))"
proof -
  let ?A = "fst (analyze_artifacts_directory L now (artifacts_dir a)
                   [\<lparr>file_name = n, file_path = p, contents = Reads e2e_log\<rparr>])"
  have A: "failed_gates (summary ?A) > 0 \<and> run_overall_success (summary ?A) \<and>
           analysis_timestamp (summary ?A) = now \<and>
           all_gates ?A = [(''latency'', True), (''memory'', False)]"
    unfolding e2e_analysis [OF assms] by (simp add: e2e_merge_once e2e_merge_again)
  have csv: "gate_results_csv ?A = e2e_csv"
    using A by (simp add: gate_results_csv_def e2e_csv_text)
  from summary_text_start [of L ?A] A obtain rest where
    md: "concat (fst (summary_writes L ?A)) =
     ''# Performance Gates Analysis Summary'' @ nl @ nl @
     ''**Analysis Timestamp**: '' @ utf8 now @ nl @ nl @
     ''## Overall Status: '' @ check_mark @ '' PASSED'' @ nl @ nl @ rest"
    by auto
  note m = main_some [of L now a "[\<lparr>file_name = n, file_path = p, contents = Reads e2e_log\<rparr>]"]
  have w: "written (main L now a (Some [\<lparr>file_name = n, file_path = p, contents = Reads e2e_log\<rparr>])) =
     [(path_join (output_dir a) ''performance-analysis-summary.md'', concat (fst (summary_writes L ?A))),
      (path_join (output_dir a) ''full-analysis.json'', json_dump L ?A),
      (path_join (output_dir a) ''gate-results.csv'', e2e_csv)]"
    using m A by (simp add: generate_detailed_analysis_def Let_def csv)
  have e: "exit_code (main L now a (Some [\<lparr>file_name = n, file_path = p, contents = Reads e2e_log\<rparr>])) = 1"
    using m A by simp
  show ?thesis
    unfolding Let_def w e md
    by (simp add: path_join_neq path_join_neq [symmetric])
qed

theorem end_to_end_witness:
  "ends_with ''unity.log'' ''.log'' \<and>
   (let r = main example_lib ''2024-01-01T00:00:00'' example_args
              (Some [\<lparr>file_name = ''unity.log'', file_path = ''artifacts/unity.log'',
                      contents = Reads e2e_log\<rparr>])
    in exit_code r = 1 \<and>
       map fst (written r) =
         [path_join (output_dir example_args) ''performance-analysis-summary.md'',
          path_join (output_dir example_args) ''full-analysis.json'',
          path_join (output_dir example_args) ''gate-results.csv''] \<and>
       map_of (written r) (path_join (output_dir example_args) ''gate-results.csv'') = Some e2e_csv \<and>
       (\<exists>rest. map_of (written r)
                 (path_join (output_dir example_args) ''performance-analysis-summary.md'') =
          Some (''# Performance Gates Analysis Summary'' @ nl @ nl @
                ''**Analysis Timestamp**: '' @ utf8 ''2024-01-01T00:00:00'' @ nl @ nl @
                ''## Overall Status: '' @ check_mark @ '' PASSED'' @ nl @ nl @ rest)))"
proof -
  have h: "ends_with ''unity.log'' ''.log''" by code_simp
  show ?thesis by (rule conjI [OF h end_to_end [OF h]])
qed

subsection \<open>Failures of the readers\<close>









































subsection \<open>A metric that is no float literal\<close>

lemma extract_metrics_fails:
  "[w, n] \<in> set ms \<Longrightarrow> float_of_str n = None \<Longrightarrow> \<exists>e. extract_metrics ms acc = Inl e"
  by (induction ms acc rule: extract_metrics.induct) (auto split: option.split)

text \<open>
  Claim C10: if the scan for the metric pattern finds a match whose number part is not a
  float literal, the conversion raises; \<open>parse_log_file\<close> prints the error and returns
  the result with the build identifier, the overall verdict and the gates extracted
  before, and without the key \<open>metrics\<close>.
\<close>

theorem bad_metric_drops_metrics:
  assumes "[w, n] \<in> set (finditer metrics_pattern content)"
    and "float_of_str n = None"
  shows "\<exists>e. parse_log_file log_path (Reads content) =
     (\<lparr>gates = fold (\<lambda>(gate_name, gate_result). AList.update gate_name gate_result)
                    (gate_matches content) [],
       overall_success = py_in ''ALL PERFORMANCE GATES PASSED'' content,
       execution_time = 0,
       build_id = (case re_search build_id_pattern content of Some [g1] \<Rightarrow> g1 | _ \<Rightarrow> ''unknown''),
       timestamp = None,
       metrics = None\<rparr>, [log_error log_path e])"
proof -
  from extract_metrics_fails [OF assms] obtain e
    where e: "extract_metrics (finditer metrics_pattern content) [] = Inl e" by blast
  show ?thesis
    by (rule exI [of _ e]) (simp add: parse_log_file_def Let_def e split: option.split list.split)
qed

theorem bad_metric_drops_metrics_witness:
  "[''version'', ''1.2.3''] \<in> set (finditer metrics_pattern version_log) \<and>
   float_of_str ''1.2.3'' = None \<and>
   (\<exists>e. parse_log_file ''build.log'' (Reads version_log) =
     (\<lparr>gates = [(''fps'', True)], overall_success = False, execution_time = 0,
       build_id = ''b7'', timestamp = None, metrics = None\<rparr>, [log_error ''build.log'' e]))"
proof -
  have m: "finditer metrics_pattern version_log = [[''version'', ''1.2.3'']]" by code_simp
  have a: "[''version'', ''1.2.3''] \<in> set (finditer metrics_pattern version_log)"
    by (simp add: m)
  have b: "float_of_str ''1.2.3'' = None" by code_simp
  have g: "gate_matches version_log = [(''fps'', True)]" by code_simp
  have p: "py_in ''ALL PERFORMANCE GATES PASSED'' version_log = False" by code_simp
  have i: "re_search build_id_pattern version_log = Some [''b7'']" by code_simp
  from bad_metric_drops_metrics [OF a b, of "''build.log''"] a b show ?thesis
    by (simp add: g p i)
qed

end
